theory Spec2Isabelle
  imports
    Complex_Main
    "HOL-Library.Word"
    "HOL-Library.Multiset"
    "HOL-Library.Monad_Syntax"
    "HOL-Library.Product_Lexorder"
begin

unbundle bit_operations_syntax

text \<open>
  A shallow embedding of the orchestration core of the travel-planning chatbot backend:
  the schema validator (\<^verbatim>\<open>ai/validators/schema.validator.ts\<close>), the itinerary chain
  (\<^verbatim>\<open>ai/chains/itinerary.chain.ts\<close>), the intent chain (\<^verbatim>\<open>ai/chains/intent.chain.ts\<close>),
  and of the AI service and the Anthropic provider the operation \<open>generateJSON\<close>
  (\<^verbatim>\<open>ai/ai.service.ts\<close>, \<^verbatim>\<open>ai/providers/anthropic.provider.ts\<close>,
  \<^verbatim>\<open>ai/providers/base-provider.ts\<close>). A function that may raise returns a sum, the
  error on the left. The definitions keep the names of the source.
\<close>

section \<open>JavaScript values\<close>

subsection \<open>Strings\<close>

text \<open>
  A JavaScript string is a sequence of UTF-16 code units. Literals of the source that are
  plain ASCII are written \<open>js ''...''\<close>.
\<close>

type_synonym jstring = "16 word list"

definition js :: "string \<Rightarrow> jstring" where
  "js s = map (\<lambda>c. of_nat (of_char c)) s"

subsection \<open>Numbers\<close>

text \<open>
  A JavaScript number is modelled as a real number or one of the three special values
  \<open>NaN\<close>, \<open>+Infinity\<close>, \<open>-Infinity\<close>. Rounding of binary floating point and the sign of
  zero are not modelled: arithmetic on finite values is exact.
\<close>

datatype jsnum = NaN | NInf | Fin real | PInf

fun jneg :: "jsnum \<Rightarrow> jsnum" where
  "jneg NaN = NaN"
| "jneg NInf = PInf"
| "jneg PInf = NInf"
| "jneg (Fin a) = Fin (- a)"

fun jadd :: "jsnum \<Rightarrow> jsnum \<Rightarrow> jsnum" where
  "jadd (Fin a) (Fin b) = Fin (a + b)"
| "jadd NaN _ = NaN"
| "jadd _ NaN = NaN"
| "jadd PInf NInf = NaN"
| "jadd NInf PInf = NaN"
| "jadd PInf _ = PInf"
| "jadd _ PInf = PInf"
| "jadd NInf _ = NInf"
| "jadd _ NInf = NInf"

definition jsub :: "jsnum \<Rightarrow> jsnum \<Rightarrow> jsnum" where
  "jsub a b = jadd a (jneg b)"

text \<open>The sign of a number: \<open>None\<close> for \<open>NaN\<close>, otherwise \<open>-1\<close>, \<open>0\<close> or \<open>1\<close>.\<close>

fun jsign :: "jsnum \<Rightarrow> int option" where
  "jsign NaN = None"
| "jsign NInf = Some (- 1)"
| "jsign PInf = Some 1"
| "jsign (Fin a) = Some (if a < 0 then - 1 else if a = 0 then 0 else 1)"

fun jmul :: "jsnum \<Rightarrow> jsnum \<Rightarrow> jsnum" where
  "jmul (Fin a) (Fin b) = Fin (a * b)"
| "jmul a b =
     (case (jsign a, jsign b) of
        (Some s, Some t) \<Rightarrow> if s * t = 0 then NaN else if 0 < s * t then PInf else NInf
      | _ \<Rightarrow> NaN)"

fun jdiv :: "jsnum \<Rightarrow> jsnum \<Rightarrow> jsnum" where
  "jdiv (Fin a) (Fin b) =
     (if b \<noteq> 0 then Fin (a / b)
      else if a = 0 then NaN else if 0 < a then PInf else NInf)"
| "jdiv NaN _ = NaN"
| "jdiv _ NaN = NaN"
| "jdiv (Fin a) _ = Fin 0"
| "jdiv PInf (Fin b) = (if 0 \<le> b then PInf else NInf)"
| "jdiv NInf (Fin b) = (if 0 \<le> b then NInf else PInf)"
| "jdiv _ _ = NaN"

text \<open>Comparison: every comparison with \<open>NaN\<close> is false.\<close>

fun jlt :: "jsnum \<Rightarrow> jsnum \<Rightarrow> bool" where
  "jlt (Fin a) (Fin b) = (a < b)"
| "jlt NaN _ = False"
| "jlt _ NaN = False"
| "jlt _ NInf = False"
| "jlt NInf _ = True"
| "jlt PInf _ = False"
| "jlt _ PInf = True"

definition jle :: "jsnum \<Rightarrow> jsnum \<Rightarrow> bool" where
  "jle a b \<longleftrightarrow> jlt a b \<or> (a \<noteq> NaN \<and> a = b)"

definition jgt :: "jsnum \<Rightarrow> jsnum \<Rightarrow> bool" where
  "jgt a b \<longleftrightarrow> jlt b a"

definition jge :: "jsnum \<Rightarrow> jsnum \<Rightarrow> bool" where
  "jge a b \<longleftrightarrow> jle b a"

text \<open>\<open>Math.round\<close> rounds to the nearest integer, a tie going up; \<open>Math.ceil\<close> rounds up.\<close>

fun Math_round :: "jsnum \<Rightarrow> jsnum" where
  "Math_round (Fin a) = Fin (of_int \<lfloor>a + 1 / 2\<rfloor>)"
| "Math_round x = x"

fun Math_ceil :: "jsnum \<Rightarrow> jsnum" where
  "Math_ceil (Fin a) = Fin (of_int \<lceil>a\<rceil>)"
| "Math_ceil x = x"

text \<open>Truthiness of a number: \<open>0\<close> and \<open>NaN\<close> are falsy.\<close>

definition truthy_num :: "jsnum \<Rightarrow> bool" where
  "truthy_num n \<longleftrightarrow> n \<noteq> NaN \<and> n \<noteq> Fin 0"

text \<open>
  Numbers under addition form a commutative monoid (\<open>NaN\<close> absorbs, the two infinities
  cancel to \<open>NaN\<close>), so sums over lists and multisets of numbers are available.
\<close>

instantiation jsnum :: comm_monoid_add
begin

definition zero_jsnum :: jsnum where
  "zero_jsnum = Fin 0"

definition plus_jsnum :: "jsnum \<Rightarrow> jsnum \<Rightarrow> jsnum" where
  "plus_jsnum a b = jadd a b"

instance
proof
  fix a b c :: jsnum
  show "a + b + c = a + (b + c)"
    unfolding plus_jsnum_def by (cases a; cases b; cases c) simp_all
  show "a + b = b + a"
    unfolding plus_jsnum_def by (cases a; cases b) simp_all
  show "0 + a = a"
    unfolding plus_jsnum_def zero_jsnum_def by (cases a) simp_all
qed

end


subsection \<open>Converting a string to a number\<close>

text \<open>
  \<open>Number(s)\<close> on a string follows the grammar of string numeric literals: white space is
  trimmed, the empty string is \<open>0\<close>, then either a binary, octal or hexadecimal integer,
  or an optionally signed decimal literal (\<open>Infinity\<close>, digits with an optional fraction
  and an optional exponent). Anything else is \<open>NaN\<close>.
\<close>

definition isStrWhiteSpaceChar :: "16 word \<Rightarrow> bool" where
  "isStrWhiteSpaceChar c \<longleftrightarrow>
     c \<in> {0x09, 0x0A, 0x0B, 0x0C, 0x0D, 0x20, 0xA0, 0x1680, 0x2028, 0x2029, 0x202F,
          0x205F, 0x3000, 0xFEFF}
     \<or> (0x2000 \<le> c \<and> c \<le> 0x200A)"

definition trimString :: "jstring \<Rightarrow> jstring" where
  "trimString s = rev (dropWhile isStrWhiteSpaceChar (rev (dropWhile isStrWhiteSpaceChar s)))"

definition digitValue :: "nat \<Rightarrow> 16 word \<Rightarrow> nat option" where
  "digitValue base c =
     (let v = (if 0x30 \<le> c \<and> c \<le> 0x39 then Some (unat c - 0x30)
               else if 0x61 \<le> c \<and> c \<le> 0x66 then Some (unat c - 0x61 + 10)
               else if 0x41 \<le> c \<and> c \<le> 0x46 then Some (unat c - 0x41 + 10)
               else None)
      in case v of Some d \<Rightarrow> if d < base then Some d else None | None \<Rightarrow> None)"

definition isDigit :: "nat \<Rightarrow> 16 word \<Rightarrow> bool" where
  "isDigit base c \<longleftrightarrow> digitValue base c \<noteq> None"

definition digitsValue :: "nat \<Rightarrow> jstring \<Rightarrow> nat" where
  "digitsValue base s = foldl (\<lambda>acc c. acc * base + (case digitValue base c of Some d \<Rightarrow> d | None \<Rightarrow> 0)) 0 s"

definition nonDecimalIntegerLiteral :: "jstring \<Rightarrow> nat option" where
  "nonDecimalIntegerLiteral s =
     (case s of
        z # p # ds \<Rightarrow>
          (let base = (if p = 0x78 \<or> p = 0x58 then 16
                       else if p = 0x6F \<or> p = 0x4F then 8
                       else if p = 0x62 \<or> p = 0x42 then 2 else 0)
           in if z = 0x30 \<and> base \<noteq> 0 \<and> ds \<noteq> [] \<and> list_all (isDigit base) ds
              then Some (digitsValue base ds) else None)
      | _ \<Rightarrow> None)"

definition exponentPart :: "jstring \<Rightarrow> int option" where
  "exponentPart s =
     (case s of
        [] \<Rightarrow> Some 0
      | e # r \<Rightarrow>
          if e = 0x65 \<or> e = 0x45 then
            (let (neg, ds) = (case r of
                                [] \<Rightarrow> (False, [])
                              | c # t \<Rightarrow> if c = 0x2D then (True, t)
                                         else if c = 0x2B then (False, t) else (False, r))
             in if ds \<noteq> [] \<and> list_all (isDigit 10) ds
                then Some (if neg then - int (digitsValue 10 ds) else int (digitsValue 10 ds))
                else None)
          else None)"

definition strUnsignedDecimalLiteral :: "jstring \<Rightarrow> jsnum" where
  "strUnsignedDecimalLiteral s =
     (if s = js ''Infinity'' then PInf
      else
        let ip = takeWhile (isDigit 10) s;
            r1 = dropWhile (isDigit 10) s;
            fp = (case r1 of [] \<Rightarrow> [] | c # t \<Rightarrow> if c = 0x2E then takeWhile (isDigit 10) t else []);
            r2 = (case r1 of [] \<Rightarrow> [] | c # t \<Rightarrow> if c = 0x2E then dropWhile (isDigit 10) t else r1)
        in if ip = [] \<and> fp = [] then NaN
           else case exponentPart r2 of
                  None \<Rightarrow> NaN
                | Some e \<Rightarrow>
                    let m = real (digitsValue 10 ip) + real (digitsValue 10 fp) / 10 ^ length fp
                    in Fin (if 0 \<le> e then m * 10 ^ nat e else m / 10 ^ nat (- e)))"

definition Number :: "jstring \<Rightarrow> jsnum" where
  "Number s =
     (let t = trimString s
      in if t = [] then Fin 0
         else case nonDecimalIntegerLiteral t of
                Some n \<Rightarrow> Fin (real n)
              | None \<Rightarrow>
                  (case t of
                     [] \<Rightarrow> Fin 0
                   | c # u \<Rightarrow> if c = 0x2B then strUnsignedDecimalLiteral u
                              else if c = 0x2D then jneg (strUnsignedDecimalLiteral u)
                              else strUnsignedDecimalLiteral t))"

subsection \<open>Splitting a string and sorting an array\<close>

text \<open>\<open>s.split(sep)\<close> with a one-character separator; the empty string gives one empty part.\<close>

fun split :: "16 word \<Rightarrow> jstring \<Rightarrow> jstring list" where
  "split sep [] = [[]]"
| "split sep (c # cs) =
     (if c = sep then [] # split sep cs
      else case split sep cs of [] \<Rightarrow> [[c]] | p # ps \<Rightarrow> (c # p) # ps)"

text \<open>
  \<open>Array.prototype.sort(comparefn)\<close>. The comparison of two elements is the number the
  function returns, with \<open>NaN\<close> read as \<open>0\<close>; an element moves behind another only when
  the comparison is positive. The sort is stable; it is written here as an insertion
  sort. For a comparison function that is not a consistent ordering the language leaves
  the resulting order to the implementation.
\<close>

definition SortCompare :: "('a \<Rightarrow> 'a \<Rightarrow> jsnum) \<Rightarrow> 'a \<Rightarrow> 'a \<Rightarrow> jsnum" where
  "SortCompare comparefn x y = (let v = comparefn x y in if v = NaN then Fin 0 else v)"

fun sort_insert :: "('a \<Rightarrow> 'a \<Rightarrow> jsnum) \<Rightarrow> 'a \<Rightarrow> 'a list \<Rightarrow> 'a list" where
  "sort_insert comparefn x [] = [x]"
| "sort_insert comparefn x (y # ys) =
     (if jgt (SortCompare comparefn x y) (Fin 0) then y # sort_insert comparefn x ys
      else x # y # ys)"

definition Array_sort :: "('a \<Rightarrow> 'a \<Rightarrow> jsnum) \<Rightarrow> 'a list \<Rightarrow> 'a list" where
  "Array_sort comparefn xs = foldr (sort_insert comparefn) xs []"

subsection \<open>JSON values, errors, truthiness\<close>

text \<open>
  A value produced by \<open>JSON.parse\<close>. An object is the list of its own properties, in
  insertion order, with distinct keys; a property that is missing reads as \<open>undefined\<close>,
  here \<open>None\<close>.
\<close>

datatype json =
    JNull
  | JBool bool
  | JNum jsnum
  | JStr jstring
  | JArr "json list"
  | JObj "(jstring \<times> json) list"

definition getProp :: "(jstring \<times> json) list \<Rightarrow> string \<Rightarrow> json option" where
  "getProp obj k = map_of obj (js k)"

fun truthy :: "json option \<Rightarrow> bool" where
  "truthy None = False"
| "truthy (Some JNull) = False"
| "truthy (Some (JBool b)) = b"
| "truthy (Some (JNum n)) = truthy_num n"
| "truthy (Some (JStr s)) = (s \<noteq> [])"
| "truthy (Some (JArr xs)) = True"
| "truthy (Some (JObj kvs)) = True"

text \<open>Every exception of the program is an \<open>Error\<close> object, of which only the message is read.\<close>

datatype js_error = Error (message: jstring)

definition Array_join :: "jstring \<Rightarrow> jstring list \<Rightarrow> jstring" where
  "Array_join sep parts =
     (case parts of [] \<Rightarrow> [] | p # ps \<Rightarrow> foldl (\<lambda>acc q. acc @ sep @ q) p ps)"

section \<open>Data model\<close>

text \<open>The locale type of \<^verbatim>\<open>common/types.ts\<close> and the enumerations of \<^verbatim>\<open>ai/types.ts\<close>.\<close>

datatype Locale = En | Zh

definition locale_string :: "Locale \<Rightarrow> jstring" where
  "locale_string l = (case l of En \<Rightarrow> js ''en'' | Zh \<Rightarrow> js ''zh'')"

datatype MessageRole = SYSTEM | USER | ASSISTANT | FUNCTION

datatype LLMModel =
    GPT_4O | GPT_4O_MINI | GPT_4_TURBO
  | CLAUDE_OPUS | CLAUDE_SONNET | CLAUDE_HAIKU
  | MISTRAL_7B | MIXTRAL_8X7B | LLAMA_3_8B

datatype IntentType =
    CREATE_ITINERARY | COMPARE_PRICES | RECOMMEND_RESTAURANT | RECOMMEND_RENTAL
  | CHECK_WEATHER | CHECK_TRAFFIC | GENERAL_QUERY | GREETING | HELP

record ChatMessage =
  role :: MessageRole
  content :: jstring
  name :: "jstring option"

record LLMOptions =
  model :: "LLMModel option"
  temperature :: "jsnum option"
  maxTokens :: "jsnum option"
  topP :: "jsnum option"
  frequencyPenalty :: "jsnum option"
  presencePenalty :: "jsnum option"
  stop :: "jstring list option"
  stream :: "bool option"

definition no_options :: LLMOptions where
  "no_options =
     \<lparr>model = None, temperature = None, maxTokens = None, topP = None,
      frequencyPenalty = None, presencePenalty = None, stop = None, stream = None\<rparr>"

text \<open>The request objects (\<^verbatim>\<open>ai.dto.ts\<close>, \<^verbatim>\<open>itinerary.dto.ts\<close>).\<close>

record ChatMessageDto =
  role :: MessageRole
  content :: jstring
  name :: "jstring option"

record ExtractIntentDto =
  query :: jstring
  "locale" :: "Locale option"
  "context" :: "ChatMessageDto list option"

datatype Budget = Low | Medium | High

datatype Pace = Relaxed | Moderate | Fast

record ItineraryPreferences =
  interests :: "jstring list option"
  budget :: "Budget option"
  pace :: "Pace option"
  accommodation :: "jstring option"
  transportation :: "jstring option"

record GenerateItineraryDto =
  destination :: jstring
  startDate :: jstring
  endDate :: jstring
  days :: jsnum
  travelers :: "jsnum option"
  preferences :: "ItineraryPreferences option"
  "locale" :: "Locale option"
  specificRequests :: "jstring option"

text \<open>The usage counters of a provider (\<^verbatim>\<open>base-provider.ts\<close>).\<close>

record UsageStats =
  totalTokens :: jsnum
  promptTokens :: jsnum
  completionTokens :: jsnum
  totalCost :: jsnum
  requestCount :: jsnum

text \<open>The result of \<open>getStatistics\<close>.\<close>

record Statistics =
  totalDays :: jsnum
  totalActivities :: jsnum
  totalCost :: jsnum
  avgActivitiesPerDay :: jsnum
  avgDailyBudget :: jsnum

text \<open>The intent (\<^verbatim>\<open>intent.dto.ts\<close>); \<open>parameters\<close> and \<open>metadata\<close> are open mappings.\<close>

record IntentResult =
  type :: IntentType
  confidence :: jsnum
  "locale" :: Locale
  parameters :: "(jstring \<times> json) list"
  detectedLanguage :: "jstring option"
  metadata :: "(jstring \<times> json) list option"

text \<open>The generated itinerary (\<open>AIItinerary\<close> of \<^verbatim>\<open>ai/types.ts\<close>).\<close>

record BilingualText =
  en :: jstring
  zh :: jstring

record Coordinates =
  lat :: jsnum
  lng :: jsnum

record Location =
  name :: jstring
  address :: "jstring option"
  coordinates :: "Coordinates option"

record Cost =
  amount :: jsnum
  currency :: jstring

record ItineraryActivity =
  time :: jstring
  name :: BilingualText
  description :: BilingualText
  location :: Location
  duration :: jsnum
  cost :: "Cost option"
  category :: jstring

record Meals =
  breakfast :: "jstring option"
  lunch :: "jstring option"
  dinner :: "jstring option"

record ItineraryDay =
  day :: jsnum
  date :: jstring
  activities :: "ItineraryActivity list"
  meals :: Meals
  accommodation :: "jstring option"
  "notes" :: "BilingualText option"

record GeneratedItinerary =
  title :: BilingualText
  summary :: BilingualText
  destination :: jstring
  startDate :: jstring
  endDate :: jstring
  days :: "ItineraryDay list"
  totalCost :: "Cost option"
  recommendations :: "BilingualText list"

section \<open>Schema validator\<close>

text \<open>
  The schemas of \<^verbatim>\<open>schema.validator.ts\<close>. A schema parses an untrusted value into the
  typed value or rejects it. The argument of a schema is \<open>None\<close> for \<open>undefined\<close>. An
  object schema reads the properties it declares and drops the others.
\<close>

fun z_string :: "json option \<Rightarrow> jstring option" where
  "z_string (Some (JStr s)) = Some s"
| "z_string _ = None"

fun z_number :: "json option \<Rightarrow> jsnum option" where
  "z_number (Some (JNum n)) = (if n = NaN then None else Some n)"
| "z_number _ = None"

fun z_object :: "((jstring \<times> json) list \<Rightarrow> 'a option) \<Rightarrow> json option \<Rightarrow> 'a option" where
  "z_object shape (Some (JObj kvs)) = shape kvs"
| "z_object shape _ = None"

fun z_array :: "(json option \<Rightarrow> 'a option) \<Rightarrow> json option \<Rightarrow> 'a list option" where
  "z_array element (Some (JArr xs)) = those (map (\<lambda>x. element (Some x)) xs)"
| "z_array element _ = None"

definition z_optional :: "(json option \<Rightarrow> 'a option) \<Rightarrow> json option \<Rightarrow> 'a option option" where
  "z_optional schema v = (case v of None \<Rightarrow> Some None | Some _ \<Rightarrow> map_option Some (schema v))"

definition z_enum :: "(string \<times> 'a) list \<Rightarrow> json option \<Rightarrow> 'a option" where
  "z_enum values v =
     (case z_string v of None \<Rightarrow> None | Some s \<Rightarrow> map_of (map (\<lambda>(k, x). (js k, x)) values) s)"

definition bilingualTextSchema :: "json option \<Rightarrow> BilingualText option" where
  "bilingualTextSchema =
     z_object (\<lambda>obj. do {
       e \<leftarrow> z_string (getProp obj ''en'');
       z \<leftarrow> z_string (getProp obj ''zh'');
       Some \<lparr>en = e, zh = z\<rparr>
     })"

definition intentSchema :: "json option \<Rightarrow> IntentResult option" where
  "intentSchema =
     z_object (\<lambda>obj. do {
       t \<leftarrow> z_enum
              [(''create_itinerary'', CREATE_ITINERARY),
               (''compare_prices'', COMPARE_PRICES),
               (''recommend_restaurant'', RECOMMEND_RESTAURANT),
               (''recommend_rental'', RECOMMEND_RENTAL),
               (''check_weather'', CHECK_WEATHER),
               (''check_traffic'', CHECK_TRAFFIC),
               (''general_query'', GENERAL_QUERY),
               (''greeting'', GREETING),
               (''help'', HELP)]
              (getProp obj ''type'');
       c \<leftarrow> z_number (getProp obj ''confidence'');
       c \<leftarrow> (if jge c (Fin 0) \<and> jle c (Fin 1) then Some c else None);
       p \<leftarrow> z_object Some (getProp obj ''parameters'');
       l \<leftarrow> z_enum [(''en'', En), (''zh'', Zh)] (getProp obj ''locale'');
       Some \<lparr>type = t, confidence = c, locale = l, parameters = p,
             detectedLanguage = None, metadata = None\<rparr>
     })"

definition costSchema :: "json option \<Rightarrow> Cost option" where
  "costSchema =
     z_object (\<lambda>obj. do {
       a \<leftarrow> z_number (getProp obj ''amount'');
       c \<leftarrow> z_string (getProp obj ''currency'');
       Some \<lparr>amount = a, currency = c\<rparr>
     })"

definition coordinatesSchema :: "json option \<Rightarrow> Coordinates option" where
  "coordinatesSchema =
     z_object (\<lambda>obj. do {
       a \<leftarrow> z_number (getProp obj ''lat'');
       b \<leftarrow> z_number (getProp obj ''lng'');
       Some \<lparr>lat = a, lng = b\<rparr>
     })"

definition locationSchema :: "json option \<Rightarrow> Location option" where
  "locationSchema =
     z_object (\<lambda>obj. do {
       n \<leftarrow> z_string (getProp obj ''name'');
       a \<leftarrow> z_optional z_string (getProp obj ''address'');
       c \<leftarrow> z_optional coordinatesSchema (getProp obj ''coordinates'');
       Some \<lparr>Location.name = n, address = a, coordinates = c\<rparr>
     })"

definition itineraryActivitySchema :: "json option \<Rightarrow> ItineraryActivity option" where
  "itineraryActivitySchema =
     z_object (\<lambda>obj. do {
       t \<leftarrow> z_string (getProp obj ''time'');
       n \<leftarrow> bilingualTextSchema (getProp obj ''name'');
       d \<leftarrow> bilingualTextSchema (getProp obj ''description'');
       l \<leftarrow> locationSchema (getProp obj ''location'');
       u \<leftarrow> z_number (getProp obj ''duration'');
       c \<leftarrow> z_optional costSchema (getProp obj ''cost'');
       g \<leftarrow> z_string (getProp obj ''category'');
       Some \<lparr>time = t, name = n, description = d, location = l, duration = u, cost = c,
             category = g\<rparr>
     })"

definition mealsSchema :: "json option \<Rightarrow> Meals option" where
  "mealsSchema =
     z_object (\<lambda>obj. do {
       b \<leftarrow> z_optional z_string (getProp obj ''breakfast'');
       l \<leftarrow> z_optional z_string (getProp obj ''lunch'');
       d \<leftarrow> z_optional z_string (getProp obj ''dinner'');
       Some \<lparr>breakfast = b, lunch = l, dinner = d\<rparr>
     })"

definition itineraryDaySchema :: "json option \<Rightarrow> ItineraryDay option" where
  "itineraryDaySchema =
     z_object (\<lambda>obj. do {
       n \<leftarrow> z_number (getProp obj ''day'');
       d \<leftarrow> z_string (getProp obj ''date'');
       a \<leftarrow> z_array itineraryActivitySchema (getProp obj ''activities'');
       m \<leftarrow> mealsSchema (getProp obj ''meals'');
       c \<leftarrow> z_optional z_string (getProp obj ''accommodation'');
       nt \<leftarrow> z_optional bilingualTextSchema (getProp obj ''notes'');
       Some \<lparr>day = n, date = d, activities = a, meals = m, accommodation = c, notes = nt\<rparr>
     })"

definition itinerarySchema :: "json option \<Rightarrow> GeneratedItinerary option" where
  "itinerarySchema =
     z_object (\<lambda>obj. do {
       t \<leftarrow> bilingualTextSchema (getProp obj ''title'');
       s \<leftarrow> bilingualTextSchema (getProp obj ''summary'');
       d \<leftarrow> z_string (getProp obj ''destination'');
       b \<leftarrow> z_string (getProp obj ''startDate'');
       e \<leftarrow> z_string (getProp obj ''endDate'');
       ds \<leftarrow> z_array itineraryDaySchema (getProp obj ''days'');
       c \<leftarrow> z_optional costSchema (getProp obj ''totalCost'');
       r \<leftarrow> z_array bilingualTextSchema (getProp obj ''recommendations'');
       Some \<lparr>title = t, summary = s, destination = d, startDate = b, endDate = e, days = ds,
             totalCost = c, recommendations = r\<rparr>
     })"

text \<open>
  \<open>SchemaValidator.validate\<close> returns \<open>{valid: true, data}\<close> or \<open>{valid: false, errors}\<close>
  and never raises. The list of issues (path and message) of a rejected value is the
  schema library's report; it is a parameter of the model.
\<close>

record ValidationIssue =
  path :: jstring
  message :: jstring

datatype 'a ValidationResult = Valid 'a | Invalid "ValidationIssue list"

definition validate ::
  "(json \<Rightarrow> ValidationIssue list) \<Rightarrow> (json option \<Rightarrow> 'a option) \<Rightarrow> json \<Rightarrow> 'a ValidationResult"
where
  "validate issues schema data =
     (case schema (Some data) of
        Some validatedData \<Rightarrow> Valid validatedData
      | None \<Rightarrow> Invalid (issues data))"

section \<open>Collaborators\<close>

text \<open>
  The chains receive their services by injection, and use a few operations of the
  language runtime. These are the parameters of the model:
  \<^item> \<open>getTemplate\<close>: the prompt template service;
  \<^item> \<open>generateJSON\<close>: the AI service, which either raises or returns the parsed reply of
    the model backend;
  \<^item> \<open>Date_getTime\<close>: the time value of \<open>new Date(s)\<close> in milliseconds, \<open>NaN\<close> for an
    invalid date (the language leaves the accepted formats partly to the implementation);
  \<^item> \<open>Number_toString\<close>: a number inside a template literal;
  \<^item> \<open>ZodError_errors\<close>: the issues reported for a value that a schema rejects;
  \<^item> \<open>JSON_stringify\<close>: the JSON text of a list of issues.
\<close>

datatype schema_name = IntentSchema | ItinerarySchema

record deps =
  getTemplate :: "jstring \<Rightarrow> Locale \<Rightarrow> jstring"
  generateJSON :: "ChatMessage list \<Rightarrow> LLMOptions \<Rightarrow> js_error + json"
  Date_getTime :: "jstring \<Rightarrow> jsnum"
  Number_toString :: "jsnum \<Rightarrow> jstring"
  ZodError_errors :: "schema_name \<Rightarrow> json \<Rightarrow> ValidationIssue list"
  JSON_stringify :: "ValidationIssue list \<Rightarrow> jstring"

text \<open>
  The effect that matters to a caller is the sequence of requests sent to the model:
  each function that may call the model takes the calls made so far and returns them
  extended. Logging is not modelled.
\<close>

type_synonym calls = "(ChatMessage list \<times> LLMOptions) list"

definition createSystemMessage :: "jstring \<Rightarrow> ChatMessage" where
  "createSystemMessage c = \<lparr>ChatMessage.role = SYSTEM, content = c, name = None\<rparr>"

definition createUserMessage :: "jstring \<Rightarrow> ChatMessage" where
  "createUserMessage c = \<lparr>ChatMessage.role = USER, content = c, name = None\<rparr>"

section \<open>Itinerary chain\<close>

definition budget_string :: "Budget \<Rightarrow> jstring" where
  "budget_string b = (case b of Low \<Rightarrow> js ''low'' | Medium \<Rightarrow> js ''medium'' | High \<Rightarrow> js ''high'')"

definition pace_string :: "Pace \<Rightarrow> jstring" where
  "pace_string p =
     (case p of Relaxed \<Rightarrow> js ''relaxed'' | Moderate \<Rightarrow> js ''moderate'' | Fast \<Rightarrow> js ''fast'')"

definition budgetMap :: "Budget \<Rightarrow> jstring" where
  "budgetMap b =
     (case b of Low \<Rightarrow> [0x7ECF, 0x6D4E] | Medium \<Rightarrow> [0x4E2D, 0x7B49] | High \<Rightarrow> [0x9AD8, 0x7AEF])"

definition paceMap :: "Pace \<Rightarrow> jstring" where
  "paceMap p =
     (case p of Relaxed \<Rightarrow> [0x8F7B, 0x677E] | Moderate \<Rightarrow> [0x9002, 0x4E2D]
      | Fast \<Rightarrow> [0x7D27, 0x51D1])"

text \<open>A line that is pushed only when its value is present and truthy.\<close>

definition nonempty :: "'a list \<Rightarrow> bool" where
  "nonempty xs \<longleftrightarrow> xs \<noteq> []"

definition line_if :: "'a option \<Rightarrow> ('a \<Rightarrow> bool) \<Rightarrow> ('a \<Rightarrow> jstring) \<Rightarrow> jstring list" where
  "line_if v ok text = (case v of None \<Rightarrow> [] | Some x \<Rightarrow> if ok x then [text x] else [])"

definition buildContextMessage :: "deps \<Rightarrow> GenerateItineraryDto \<Rightarrow> Locale \<Rightarrow> jstring" where
  "buildContextMessage env dto loc =
     (let num = Number_toString env;
          parts =
            (if loc = En then
               [js ''Create a '' @ num (GenerateItineraryDto.days dto) @ js ''-day itinerary for ''
                  @ GenerateItineraryDto.destination dto @ js ''.'',
                js ''Travel dates: '' @ GenerateItineraryDto.startDate dto @ js '' to ''
                  @ GenerateItineraryDto.endDate dto]
               @ line_if (travelers dto) truthy_num (\<lambda>n. js ''Number of travelers: '' @ num n)
               @ (case preferences dto of
                    None \<Rightarrow> []
                  | Some p \<Rightarrow>
                      line_if (interests p) nonempty
                        (\<lambda>xs. js ''Interests: '' @ Array_join (js '', '') xs)
                      @ line_if (budget p) (\<lambda>b. True)
                          (\<lambda>b. js ''Budget level: '' @ budget_string b)
                      @ line_if (pace p) (\<lambda>b. True)
                          (\<lambda>b. js ''Preferred pace: '' @ pace_string b)
                      @ line_if (ItineraryPreferences.accommodation p) nonempty
                          (\<lambda>s. js ''Accommodation preference: '' @ s)
                      @ line_if (transportation p) nonempty (\<lambda>s. js ''Transportation: '' @ s))
               @ line_if (specificRequests dto) nonempty (\<lambda>s. js ''Specific requests: '' @ s)
             else
               [[0x4E3A] @ GenerateItineraryDto.destination dto @ [0x521B, 0x5EFA]
                  @ num (GenerateItineraryDto.days dto) @ [0x5929, 0x7684, 0x884C, 0x7A0B, 0x3002],
                [0x65C5, 0x884C, 0x65E5, 0x671F, 0xFF1A] @ GenerateItineraryDto.startDate dto
                  @ [0x81F3] @ GenerateItineraryDto.endDate dto]
               @ line_if (travelers dto) truthy_num
                   (\<lambda>n. [0x65C5, 0x884C, 0x8005, 0x4EBA, 0x6570, 0xFF1A] @ num n)
               @ (case preferences dto of
                    None \<Rightarrow> []
                  | Some p \<Rightarrow>
                      line_if (interests p) nonempty
                        (\<lambda>xs. [0x5174, 0x8DA3, 0xFF1A] @ Array_join [0x3001] xs)
                      @ line_if (budget p) (\<lambda>b. True)
                          (\<lambda>b. [0x9884, 0x7B97, 0x6C34, 0x5E73, 0xFF1A] @ budgetMap b)
                      @ line_if (pace p) (\<lambda>b. True)
                          (\<lambda>b. [0x8282, 0x594F, 0xFF1A] @ paceMap b)
                      @ line_if (ItineraryPreferences.accommodation p) nonempty
                          (\<lambda>s. [0x4F4F, 0x5BBF, 0x504F, 0x597D, 0xFF1A] @ s)
                      @ line_if (transportation p) nonempty
                          (\<lambda>s. [0x4EA4, 0x901A, 0x65B9, 0x5F0F, 0xFF1A] @ s))
               @ line_if (specificRequests dto) nonempty
                   (\<lambda>s. [0x7279, 0x6B8A, 0x8981, 0x6C42, 0xFF1A] @ s))
      in Array_join [0x0A] parts)"

text \<open>
  \<open>validateDateRange\<close> raises when \<open>start >= end\<close>. Otherwise it returns; the result here
  records whether the warning about the number of days was logged.
\<close>

definition validateDateRange :: "deps \<Rightarrow> jstring \<Rightarrow> jstring \<Rightarrow> jsnum \<Rightarrow> js_error + bool" where
  "validateDateRange env startDateStr endDateStr nDays =
     (let start = Date_getTime env startDateStr;
          finish = Date_getTime env endDateStr
      in if jge start finish then Inl (Error (js ''End date must be after start date''))
         else
           let daysDiff = Math_ceil (jdiv (jsub finish start) (Fin (1000 * 60 * 60 * 24)))
           in Inr (daysDiff \<noteq> nDays \<or> daysDiff = NaN))"

definition parseTime :: "jstring \<Rightarrow> jsnum" where
  "parseTime timeStr =
     (case map Number (split 0x3A timeStr) of
        [] \<Rightarrow> NaN
      | hours # rest \<Rightarrow>
          let minutes = (case rest of [] \<Rightarrow> None | m # _ \<Rightarrow> Some m)
          in jadd (jmul hours (Fin 60))
                  (case minutes of
                     None \<Rightarrow> Fin 0
                   | Some m \<Rightarrow> if truthy_num m then m else Fin 0))"

definition calculateTotalCost :: "GeneratedItinerary \<Rightarrow> Cost" where
  "calculateTotalCost itinerary =
     (let (total, cur) =
            foldl (\<lambda>acc d.
                     foldl (\<lambda>(total, cur) activity.
                              case cost activity of
                                Some c \<Rightarrow> (jadd total (amount c), currency c)
                              | None \<Rightarrow> (total, cur))
                           acc (activities d))
                  (Fin 0, js ''NZD'') (days itinerary)
      in \<lparr>amount = Math_round total, currency = cur\<rparr>)"

definition compareByTime :: "ItineraryActivity \<Rightarrow> ItineraryActivity \<Rightarrow> jsnum" where
  "compareByTime a b = (let timeA = parseTime (time a); timeB = parseTime (time b) in jsub timeA timeB)"

definition optimizeItinerary :: "GeneratedItinerary \<Rightarrow> GeneratedItinerary" where
  "optimizeItinerary itinerary =
     (let arranged =
            itinerary\<lparr>days :=
              map (\<lambda>d. d\<lparr>activities := Array_sort compareByTime (activities d)\<rparr>)
                  (days itinerary)\<rparr>
      in if totalCost arranged = None
         then arranged\<lparr>totalCost := Some (calculateTotalCost arranged)\<rparr>
         else arranged)"

definition countActivities :: "GeneratedItinerary \<Rightarrow> nat" where
  "countActivities itinerary = foldl (\<lambda>acc d. acc + length (activities d)) 0 (days itinerary)"

text \<open>The request \<open>generate\<close> sends to the model: three messages and the options.\<close>

definition itineraryRequest ::
  "deps \<Rightarrow> GenerateItineraryDto \<Rightarrow> Locale \<Rightarrow> ChatMessage list \<times> LLMOptions"
where
  "itineraryRequest env dto loc =
     (let systemPrompt = getTemplate env (js ''system'') loc;
          itineraryPrompt = getTemplate env (js ''itinerary'') loc;
          contextMessage = buildContextMessage env dto loc;
          messages = [createSystemMessage systemPrompt,
                      createSystemMessage itineraryPrompt,
                      createUserMessage contextMessage]
      in (messages, no_options\<lparr>temperature := Some (Fin 0.7), maxTokens := Some (Fin 4000)\<rparr>))"

definition generate ::
  "deps \<Rightarrow> GenerateItineraryDto \<Rightarrow> calls \<Rightarrow> (js_error + GeneratedItinerary) \<times> calls"
where
  "generate env dto made =
     (let loc = (case GenerateItineraryDto.locale dto of Some l \<Rightarrow> l | None \<Rightarrow> En)
      in case validateDateRange env (GenerateItineraryDto.startDate dto)
                (GenerateItineraryDto.endDate dto) (GenerateItineraryDto.days dto) of
           Inl err \<Rightarrow> (Inl err, made)
         | Inr _ \<Rightarrow>
             let (messages, options) = itineraryRequest env dto loc;
                 made' = made @ [(messages, options)]
             in case generateJSON env messages options of
                  Inl err \<Rightarrow> (Inl err, made')
                | Inr response \<Rightarrow>
                    (case validate (ZodError_errors env ItinerarySchema) itinerarySchema response of
                       Invalid errs \<Rightarrow>
                         (Inl (Error (js ''Invalid itinerary response: ''
                                       @ JSON_stringify env errs)), made')
                     | Valid itinerary \<Rightarrow> (Inr (optimizeItinerary itinerary), made')))"

definition getStatistics :: "GeneratedItinerary \<Rightarrow> Statistics" where
  "getStatistics itinerary =
     (let nActivities = Fin (real (countActivities itinerary));
          costAmount = (case totalCost itinerary of
                         None \<Rightarrow> Fin 0
                       | Some c \<Rightarrow> if truthy_num (amount c) then amount c else Fin 0);
          nDays = Fin (real (length (days itinerary)))
      in \<lparr>totalDays = nDays,
          totalActivities = nActivities,
          totalCost = costAmount,
          avgActivitiesPerDay = Math_round (jdiv nActivities nDays),
          avgDailyBudget = Math_round (jdiv costAmount nDays)\<rparr>)"

section \<open>Intent chain\<close>

text \<open>\<open>detectLanguage\<close> tests the query against the character class from U+4E00 to U+9FFF.\<close>

definition chineseRegex_test :: "jstring \<Rightarrow> bool" where
  "chineseRegex_test q = list_ex (\<lambda>c. 0x4E00 \<le> c \<and> c \<le> 0x9FFF) q"

definition detectLanguage :: "jstring \<Rightarrow> Locale" where
  "detectLanguage q = (if chineseRegex_test q then Zh else En)"

definition createFallbackIntent :: "jstring \<Rightarrow> Locale \<Rightarrow> IntentResult" where
  "createFallbackIntent q loc =
     \<lparr>type = GENERAL_QUERY,
      confidence = Fin 0.5,
      locale = loc,
      parameters = [],
      detectedLanguage = None,
      metadata = Some [(js ''fallback'', JBool True), (js ''originalQuery'', JStr q)]\<rparr>"

text \<open>The locale of a request: \<open>dto.locale || this.detectLanguage(dto.query)\<close>.\<close>

definition resolveLocale :: "ExtractIntentDto \<Rightarrow> Locale" where
  "resolveLocale dto =
     (case ExtractIntentDto.locale dto of Some l \<Rightarrow> l | None \<Rightarrow> detectLanguage (query dto))"

text \<open>The request \<open>extract\<close> sends to the model.\<close>

definition intentRequest ::
  "deps \<Rightarrow> ExtractIntentDto \<Rightarrow> Locale \<Rightarrow> ChatMessage list \<times> LLMOptions"
where
  "intentRequest env dto loc =
     (let systemPrompt = getTemplate env (js ''system'') loc;
          intentPrompt = getTemplate env (js ''intent'') loc;
          history = (case context dto of
                       None \<Rightarrow> []
                     | Some msgs \<Rightarrow>
                         map (\<lambda>msg. \<lparr>ChatMessage.role = ChatMessageDto.role msg,
                                     content = ChatMessageDto.content msg,
                                     name = None\<rparr>) msgs);
          messages = [createSystemMessage systemPrompt, createSystemMessage intentPrompt]
                     @ history @ [createUserMessage (query dto)]
      in (messages, no_options\<lparr>temperature := Some (Fin 0.3), maxTokens := Some (Fin 1000)\<rparr>))"

definition "extract" ::
  "deps \<Rightarrow> ExtractIntentDto \<Rightarrow> calls \<Rightarrow> (js_error + IntentResult) \<times> calls"
where
  "extract env dto made =
     (let loc = resolveLocale dto;
          (messages, options) = intentRequest env dto loc;
          made' = made @ [(messages, options)]
      in case generateJSON env messages options of
           Inl err \<Rightarrow> (Inl err, made')
         | Inr response \<Rightarrow>
             (case validate (ZodError_errors env IntentSchema) intentSchema response of
                Invalid errs \<Rightarrow> (Inr (createFallbackIntent (query dto) loc), made')
              | Valid intent \<Rightarrow>
                  (Inr (intent\<lparr>detectedLanguage := Some (locale_string loc)\<rparr>), made')))"

definition isActionable :: "IntentResult \<Rightarrow> bool" where
  "isActionable intent =
     (if jlt (confidence intent) (Fin 0.7) then False
      else
        let param = getProp (parameters intent)
        in case type intent of
             CREATE_ITINERARY \<Rightarrow> truthy (param ''destination'') \<or> truthy (param ''duration'')
           | COMPARE_PRICES \<Rightarrow>
               truthy (param ''destination'') \<or> truthy (param ''specificRequests'')
           | RECOMMEND_RESTAURANT \<Rightarrow> truthy (param ''destination'')
           | RECOMMEND_RENTAL \<Rightarrow> truthy (param ''destination'')
           | CHECK_WEATHER \<Rightarrow> truthy (param ''destination'')
           | CHECK_TRAFFIC \<Rightarrow> truthy (param ''destination'')
           | _ \<Rightarrow> True)"

section \<open>AI service and provider\<close>

text \<open>
  \<open>BaseLLMProvider.handleError\<close> raises a new error that carries the provider name, the
  operation and the message of the error it caught.
\<close>

definition handleError :: "jstring \<Rightarrow> js_error \<Rightarrow> jstring \<Rightarrow> js_error" where
  "handleError providerName err ctxt =
     Error (providerName @ js '' '' @ ctxt @ js '': '' @ js_error.message err)"

definition validateOptions :: "LLMOptions \<Rightarrow> LLMOptions" where
  "validateOptions options =
     (let dflt = (\<lambda>v d. case v of Some x \<Rightarrow> Some x | None \<Rightarrow> Some d)
      in \<lparr>model = model options,
          temperature = dflt (temperature options) (Fin 0.7),
          maxTokens = dflt (maxTokens options) (Fin 2000),
          topP = dflt (topP options) (Fin 1),
          frequencyPenalty = dflt (frequencyPenalty options) (Fin 0),
          presencePenalty = dflt (presencePenalty options) (Fin 0),
          stop = (case stop options of Some x \<Rightarrow> Some x | None \<Rightarrow> Some []),
          stream = (case stream options of Some x \<Rightarrow> Some x | None \<Rightarrow> Some False)\<rparr>)"

text \<open>The Anthropic client: the request, the reply, and the two outcomes of a call.\<close>

record AnthropicMessageParam =
  role :: MessageRole
  content :: jstring

record MessageCreateParams =
  model :: "LLMModel option"
  max_tokens :: jsnum
  messages :: "AnthropicMessageParam list"
  temperature :: "jsnum option"
  system :: "jstring option"

datatype ContentBlock = TextBlock jstring | OtherBlock

record AnthropicMessage =
  content :: "ContentBlock list"
  model :: jstring
  input_tokens :: jsnum
  output_tokens :: jsnum

text \<open>
  The world outside the provider: the remote call, which raises on a transport failure,
  and \<open>JSON.parse\<close>, which raises on text that is not JSON. \<open>TypeError_message\<close> is
  the message of the runtime's error for a property read on \<open>undefined\<close>.
\<close>

record backend =
  messages_create :: "MessageCreateParams \<Rightarrow> js_error + AnthropicMessage"
  JSON_parse :: "jstring \<Rightarrow> js_error + json"
  TypeError_message :: jstring

definition calculateCost :: "jstring \<Rightarrow> jsnum \<Rightarrow> jsnum \<Rightarrow> jsnum" where
  "calculateCost modelName nPrompt nCompletion =
     (let pricing =
            [(js ''claude-3-opus-20240229'', (Fin 15, Fin 75)),
             (js ''claude-3-5-sonnet-20241022'', (Fin 3, Fin 15)),
             (js ''claude-3-5-haiku-20241022'', (Fin 0.8, Fin 4)),
             (js ''claude-3-sonnet-20240229'', (Fin 3, Fin 15)),
             (js ''claude-3-haiku-20240307'', (Fin 0.25, Fin 1.25))];
          (input, output) = (case map_of pricing modelName of
                               Some p \<Rightarrow> p
                             | None \<Rightarrow> (Fin 0.8, Fin 4))
      in jadd (jmul (jdiv nPrompt (Fin 1000000)) input)
              (jmul (jdiv nCompletion (Fin 1000000)) output))"

definition trackUsage :: "jstring \<Rightarrow> jsnum \<Rightarrow> jsnum \<Rightarrow> UsageStats \<Rightarrow> UsageStats" where
  "trackUsage modelName nPrompt nCompletion usage =
     (let total = jadd nPrompt nCompletion;
          price = calculateCost modelName nPrompt nCompletion
      in \<lparr>totalTokens = jadd (totalTokens usage) total,
          promptTokens = jadd (promptTokens usage) nPrompt,
          completionTokens = jadd (completionTokens usage) nCompletion,
          totalCost = jadd (UsageStats.totalCost usage) price,
          requestCount = jadd (requestCount usage) (Fin 1)\<rparr>)"

definition convertMessages ::
  "ChatMessage list \<Rightarrow> jstring option \<times> AnthropicMessageParam list"
where
  "convertMessages msgs =
     foldl (\<lambda>(sys, out) msg.
              if ChatMessage.role msg = SYSTEM then
                (Some (case sys of
                         None \<Rightarrow> ChatMessage.content msg
                       | Some s \<Rightarrow> if s \<noteq> [] then s @ js [CHR 10, CHR 10] @ ChatMessage.content msg
                                  else ChatMessage.content msg),
                 out)
              else if ChatMessage.role msg = USER \<or> ChatMessage.role msg = ASSISTANT then
                (sys, out @ [\<lparr>AnthropicMessageParam.role = ChatMessage.role msg,
                               content = ChatMessage.content msg\<rparr>])
              else (sys, out))
           (None, []) msgs"

definition extractContent :: "AnthropicMessage \<Rightarrow> jstring" where
  "extractContent response =
     (case AnthropicMessage.content response of
        TextBlock txt # _ \<Rightarrow> txt
      | _ \<Rightarrow> [])"

definition AnthropicProvider_generateJSON ::
  "backend \<Rightarrow> ChatMessage list \<Rightarrow> LLMOptions \<Rightarrow> UsageStats \<Rightarrow> (js_error + json) \<times> UsageStats"
where
  "AnthropicProvider_generateJSON be msgs options usage =
     (let validatedOptions = validateOptions options
      in case rev msgs of
           [] \<Rightarrow> (Inl (handleError (js ''anthropic'') (Error (TypeError_message be))
                          (js ''GenerateJSON'')), usage)
         | lastMessage # earlier \<Rightarrow>
             let modifiedMessages =
                   rev earlier
                   @ [lastMessage\<lparr>ChatMessage.content :=
                        ChatMessage.content lastMessage
                        @ js [CHR 10, CHR 10]
                        @ js ''Respond with valid JSON only. Do not include any other text.''\<rparr>];
                 (sys, anthropicMessages) = convertMessages modifiedMessages;
                 requestParams =
                   \<lparr>MessageCreateParams.model = LLMOptions.model validatedOptions,
                    max_tokens = (case maxTokens validatedOptions of
                                    Some n \<Rightarrow> if truthy_num n then n else Fin 2048
                                  | None \<Rightarrow> Fin 2048),
                    messages = anthropicMessages,
                    temperature = LLMOptions.temperature validatedOptions,
                    system = (case sys of Some s \<Rightarrow> if s \<noteq> [] then Some s else None
                              | None \<Rightarrow> None)\<rparr>
             in case messages_create be requestParams of
                  Inl err \<Rightarrow> (Inl (handleError (js ''anthropic'') err (js ''GenerateJSON'')), usage)
                | Inr response \<Rightarrow>
                    let text = extractContent response;
                        usage' = trackUsage (AnthropicMessage.model response)
                                   (input_tokens response) (output_tokens response) usage
                    in case JSON_parse be text of
                         Inl err \<Rightarrow>
                           (Inl (handleError (js ''anthropic'') err (js ''GenerateJSON'')), usage')
                       | Inr parsed \<Rightarrow> (Inr parsed, usage'))"





section \<open>Vocabulary of the properties\<close>

text \<open>
  An order-preserving key for the numbers other than \<open>NaN\<close>: pairs ordered
  lexicographically, the two infinities below and above every real.
\<close>

definition numKey :: "jsnum \<Rightarrow> int \<times> real" where
  "numKey n = (case n of NInf \<Rightarrow> (- 1, 0) | Fin r \<Rightarrow> (0, r) | PInf \<Rightarrow> (1, 0) | NaN \<Rightarrow> (2, 0))"

definition timeOf :: "ItineraryActivity \<Rightarrow> jsnum" where
  "timeOf a = parseTime (time a)"

text \<open>A day's activities are in time order when the parsed times never decrease.\<close>

definition inTimeOrder :: "ItineraryActivity list \<Rightarrow> bool" where
  "inTimeOrder acts = sorted_wrt (\<lambda>a b. jle (timeOf a) (timeOf b)) acts"

text \<open>The activities of an itinerary, day by day, and the costs they carry, in that order.\<close>

definition allActivities :: "GeneratedItinerary \<Rightarrow> ItineraryActivity list" where
  "allActivities itinerary = concat (map activities (days itinerary))"

definition costsOf :: "ItineraryActivity list \<Rightarrow> Cost list" where
  "costsOf acts = concat (map (\<lambda>a. case cost a of None \<Rightarrow> [] | Some c \<Rightarrow> [c]) acts)"


definition isFinite :: "jsnum \<Rightarrow> bool" where
  "isFinite n = (case n of Fin r \<Rightarrow> True | _ \<Rightarrow> False)"



text \<open>
  The currency the data model describes for a computed total: the first non-empty
  currency among the costs, \<open>NZD\<close> when there is none.
\<close>

definition firstNonEmptyCurrency :: "Cost list \<Rightarrow> jstring" where
  "firstNonEmptyCurrency cs =
     (case filter (\<lambda>c. currency c \<noteq> []) cs of [] \<Rightarrow> js ''NZD'' | c # _ \<Rightarrow> currency c)"

text \<open>
  The ideographs of the Basic Multilingual Plane in Unicode: the blocks CJK Unified
  Ideographs (U+4E00 to U+9FFF), CJK Unified Ideographs Extension A (U+3400 to U+4DBF)
  and CJK Compatibility Ideographs (U+F900 to U+FAFF).
\<close>

definition cjkIdeograph :: "16 word \<Rightarrow> bool" where
  "cjkIdeograph c \<longleftrightarrow>
     (0x4E00 \<le> c \<and> c \<le> 0x9FFF) \<or> (0x3400 \<le> c \<and> c \<le> 0x4DBF) \<or> (0xF900 \<le> c \<and> c \<le> 0xFAFF)"

definition isASCII :: "jstring \<Rightarrow> bool" where
  "isASCII s = list_all (\<lambda>c. c < 0x80) s"

text \<open>
  Two parts of the source functions, named for the proofs: the body of the inner loop of
  \<open>calculateTotalCost\<close> and the sorting of one day in \<open>optimizeItinerary\<close>.
\<close>

definition costStep :: "jsnum \<times> jstring \<Rightarrow> ItineraryActivity \<Rightarrow> jsnum \<times> jstring" where
  "costStep = (\<lambda>(total, cur) activity.
                 case cost activity of
                   Some c \<Rightarrow> (jadd total (amount c), currency c)
                 | None \<Rightarrow> (total, cur))"

definition arrange :: "ItineraryDay \<Rightarrow> ItineraryDay" where
  "arrange = (\<lambda>d. d\<lparr>activities := Array_sort compareByTime (activities d)\<rparr>)"

section \<open>Example data\<close>

text \<open>
  Concrete values for the examples below: an activity at a given time with a given cost,
  an itinerary of one day, and collaborators that answer every request with a fixed
  reply. The example runtime reads the date-only form \<open>YYYY-MM-DD\<close> as the language
  defines it (midnight UTC) and takes every other string for an invalid date.
\<close>

definition exampleActivity :: "string \<Rightarrow> Cost option \<Rightarrow> ItineraryActivity" where
  "exampleActivity t c =
     \<lparr>time = js t,
      name = \<lparr>en = js ''Sky Tower'', zh = [0x5929, 0x7A7A, 0x5854]\<rparr>,
      description = \<lparr>en = js ''Visit'', zh = [0x53C2, 0x89C2]\<rparr>,
      location = \<lparr>Location.name = js ''Sky Tower'', address = None, coordinates = None\<rparr>,
      duration = Fin 60,
      cost = c,
      category = js ''attraction''\<rparr>"

definition exampleItinerary :: "ItineraryActivity list \<Rightarrow> Cost option \<Rightarrow> GeneratedItinerary" where
  "exampleItinerary acts tc =
     \<lparr>title = \<lparr>en = js ''Auckland'', zh = [0x5965, 0x514B, 0x5170]\<rparr>,
      summary = \<lparr>en = js ''Highlights'', zh = [0x4EAE, 0x70B9]\<rparr>,
      destination = js ''Auckland'',
      startDate = js ''2025-12-01'',
      endDate = js ''2025-12-03'',
      days = [\<lparr>day = Fin 1, date = js ''2025-12-01'', activities = acts,
               meals = \<lparr>breakfast = None, lunch = None, dinner = None\<rparr>,
               accommodation = None, notes = None\<rparr>],
      totalCost = tc,
      recommendations = []\<rparr>"

definition daysFromCivil :: "int \<Rightarrow> int \<Rightarrow> int \<Rightarrow> int" where
  "daysFromCivil y m d =
     (let y' = (if m \<le> 2 then y - 1 else y);
          era = y' div 400;
          yoe = y' - era * 400;
          doy = (153 * (if 2 < m then m - 3 else m + 9) + 2) div 5 + d - 1;
          doe = yoe * 365 + yoe div 4 - yoe div 100 + doy
      in era * 146097 + doe - 719468)"

definition daysInMonth :: "int \<Rightarrow> int \<Rightarrow> int" where
  "daysInMonth y m =
     (if m = 2 then (if y mod 4 = 0 \<and> (y mod 100 \<noteq> 0 \<or> y mod 400 = 0) then 29 else 28)
      else if m \<in> {4, 6, 9, 11} then 30 else 31)"

definition isoDate_getTime :: "jstring \<Rightarrow> jsnum" where
  "isoDate_getTime s =
     (case s of
        [y1, y2, y3, y4, h1, m1, m2, h2, d1, d2] \<Rightarrow>
          if list_all (isDigit 10) [y1, y2, y3, y4, m1, m2, d1, d2] \<and> h1 = 0x2D \<and> h2 = 0x2D
          then
            let y = int (digitsValue 10 [y1, y2, y3, y4]);
                m = int (digitsValue 10 [m1, m2]);
                d = int (digitsValue 10 [d1, d2])
            in if 1 \<le> m \<and> m \<le> 12 \<and> 1 \<le> d \<and> d \<le> daysInMonth y m
               then Fin (real_of_int (daysFromCivil y m d * 86400000))
               else NaN
          else NaN
      | _ \<Rightarrow> NaN)"

definition exampleDeps :: "(js_error + json) \<Rightarrow> deps" where
  "exampleDeps reply =
     \<lparr>getTemplate = (\<lambda>templateName loc. templateName),
      generateJSON = (\<lambda>msgs options. reply),
      Date_getTime = isoDate_getTime,
      Number_toString = (\<lambda>n. js ''3''),
      ZodError_errors = (\<lambda>schema rejected. [\<lparr>path = js ''type'', message = js ''Required''\<rparr>]),
      JSON_stringify = (\<lambda>issues. js ''[]'')\<rparr>"

definition exampleItineraryDto :: "string \<Rightarrow> string \<Rightarrow> GenerateItineraryDto" where
  "exampleItineraryDto start finish =
     \<lparr>GenerateItineraryDto.destination = js ''Auckland'',
      startDate = js start,
      endDate = js finish,
      days = Fin 3,
      travelers = None,
      preferences = None,
      locale = Some En,
      specificRequests = None\<rparr>"

definition exampleIntentDto :: "jstring \<Rightarrow> ExtractIntentDto" where
  "exampleIntentDto q = \<lparr>query = q, locale = None, context = None\<rparr>"





text \<open>The JSON text of the example activities and itinerary, as a backend would send it.\<close>

definition bilingualJSON :: "BilingualText \<Rightarrow> json" where
  "bilingualJSON b = JObj [(js ''en'', JStr (en b)), (js ''zh'', JStr (zh b))]"

definition costJSON :: "Cost \<Rightarrow> json" where
  "costJSON c = JObj [(js ''amount'', JNum (amount c)), (js ''currency'', JStr (currency c))]"

definition exampleActivityJSON :: "string \<Rightarrow> Cost option \<Rightarrow> json" where
  "exampleActivityJSON t c =
     JObj ([(js ''time'', JStr (js t)),
            (js ''name'', bilingualJSON \<lparr>en = js ''Sky Tower'', zh = [0x5929, 0x7A7A, 0x5854]\<rparr>),
            (js ''description'', bilingualJSON \<lparr>en = js ''Visit'', zh = [0x53C2, 0x89C2]\<rparr>),
            (js ''location'', JObj [(js ''name'', JStr (js ''Sky Tower''))]),
            (js ''duration'', JNum (Fin 60)),
            (js ''category'', JStr (js ''attraction''))]
           @ (case c of None \<Rightarrow> [] | Some x \<Rightarrow> [(js ''cost'', costJSON x)]))"

definition exampleItineraryJSON :: "json list \<Rightarrow> json" where
  "exampleItineraryJSON acts =
     JObj [(js ''title'', bilingualJSON \<lparr>en = js ''Auckland'', zh = [0x5965, 0x514B, 0x5170]\<rparr>),
           (js ''summary'', bilingualJSON \<lparr>en = js ''Highlights'', zh = [0x4EAE, 0x70B9]\<rparr>),
           (js ''destination'', JStr (js ''Auckland'')),
           (js ''startDate'', JStr (js ''2025-12-01'')),
           (js ''endDate'', JStr (js ''2025-12-03'')),
           (js ''days'',
            JArr [JObj [(js ''day'', JNum (Fin 1)),
                        (js ''date'', JStr (js ''2025-12-01'')),
                        (js ''activities'', JArr acts),
                        (js ''meals'', JObj [])]]),
           (js ''recommendations'', JArr [])]"

text \<open>The examples: intents, replies and itineraries.\<close>

definition lowConfidenceIntent :: IntentResult where
  "lowConfidenceIntent =
     \<lparr>type = CREATE_ITINERARY, confidence = Fin 0.6, locale = En,
      parameters = [(js ''destination'', JStr (js ''Auckland''))],
      detectedLanguage = None, metadata = None\<rparr>"


definition threeActivities :: GeneratedItinerary where
  "threeActivities =
     exampleItinerary
       [exampleActivity ''14:00'' (Some \<lparr>amount = Fin 20.1, currency = js ''EUR''\<rparr>),
        exampleActivity ''09:00'' (Some \<lparr>amount = Fin 10.4, currency = js ''USD''\<rparr>),
        exampleActivity ''09:00'' None]
       None"



definition twoCurrencies :: GeneratedItinerary where
  "twoCurrencies =
     exampleItinerary
       [exampleActivity ''09:00'' (Some \<lparr>amount = Fin 10, currency = js ''USD''\<rparr>),
        exampleActivity ''10:00'' (Some \<lparr>amount = Fin 20, currency = js ''EUR''\<rparr>)]
       None"

definition twoCurrenciesJSON :: json where
  "twoCurrenciesJSON =
     exampleItineraryJSON
       [exampleActivityJSON ''09:00'' (Some \<lparr>amount = Fin 10, currency = js ''USD''\<rparr>),
        exampleActivityJSON ''10:00'' (Some \<lparr>amount = Fin 20, currency = js ''EUR''\<rparr>)]"

definition pricedItinerary :: GeneratedItinerary where
  "pricedItinerary =
     exampleItinerary
       [exampleActivity ''14:00'' None, exampleActivity ''09:00'' None]
       (Some \<lparr>amount = Fin 500, currency = js ''NZD''\<rparr>)"

definition noDaysItinerary :: GeneratedItinerary where
  "noDaysItinerary = (exampleItinerary [] None)\<lparr>days := []\<rparr>"

section \<open>Sorting by time\<close>

lemma mset_sort_insert: "mset (sort_insert f x ys) = add_mset x (mset ys)"
  by (induction ys) simp_all

lemma mset_Array_sort: "mset (Array_sort f xs) = mset xs"
  unfolding Array_sort_def by (induction xs) (simp_all add: mset_sort_insert)

lemma numKey_less:
  assumes "a \<noteq> NaN" "b \<noteq> NaN"
  shows "jlt a b \<longleftrightarrow> numKey a < numKey b"
  using assms by (cases a; cases b) (simp_all add: numKey_def)

lemma numKey_inj:
  assumes "a \<noteq> NaN" "b \<noteq> NaN"
  shows "numKey a = numKey b \<longleftrightarrow> a = b"
  using assms by (cases a; cases b) (simp_all add: numKey_def)

lemma numKey_le:
  assumes "a \<noteq> NaN" "b \<noteq> NaN"
  shows "jle a b \<longleftrightarrow> numKey a \<le> numKey b"
  using assms numKey_less[OF assms] numKey_inj[OF assms] unfolding jle_def
  by (auto simp: le_less)

lemma SortCompare_sub:
  assumes "a \<noteq> NaN" "b \<noteq> NaN"
  shows "jgt (let v = jsub a b in if v = NaN then Fin 0 else v) (Fin 0) \<longleftrightarrow> numKey b < numKey a"
  using assms by (cases a; cases b) (simp_all add: numKey_def jgt_def jsub_def Let_def)

lemma sort_insert_compareByTime:
  assumes "timeOf x \<noteq> NaN" "\<forall>y \<in> set ys. timeOf y \<noteq> NaN"
  shows "sort_insert compareByTime x ys = insort_key (\<lambda>a. numKey (timeOf a)) x ys"
  using assms
proof (induction ys)
  case Nil
  then show ?case by simp
next
  case (Cons y ys)
  have "jgt (SortCompare compareByTime x y) (Fin 0) \<longleftrightarrow> numKey (timeOf y) < numKey (timeOf x)"
    using SortCompare_sub[of "timeOf x" "timeOf y"] Cons.prems
    by (simp add: SortCompare_def compareByTime_def timeOf_def Let_def)
  then show ?case using Cons by (auto simp: not_le)
qed

lemma Array_sort_compareByTime:
  assumes "\<forall>y \<in> set xs. timeOf y \<noteq> NaN"
  shows "Array_sort compareByTime xs = sort_key (\<lambda>a. numKey (timeOf a)) xs"
  using assms
proof (induction xs)
  case Nil
  then show ?case by (simp add: Array_sort_def)
next
  case (Cons x xs)
  then have IH: "Array_sort compareByTime xs = sort_key (\<lambda>a. numKey (timeOf a)) xs" by simp
  have "\<forall>y \<in> set (sort_key (\<lambda>a. numKey (timeOf a)) xs). timeOf y \<noteq> NaN"
    using Cons.prems by simp
  then show ?case
    using IH Cons.prems sort_insert_compareByTime[of x "sort_key (\<lambda>a. numKey (timeOf a)) xs"]
    by (simp add: Array_sort_def sort_key_def)
qed



text \<open>
  When every time parses, the result does not depend on the sorting algorithm: any
  arrangement of the same activities that is in time order and keeps the relative order
  of activities with equal times is the one \<open>Array_sort\<close> returns.
\<close>

lemma stable_sort_unique:
  assumes "\<forall>y \<in> set xs. timeOf y \<noteq> NaN"
    and "mset ys = mset xs"
    and "inTimeOrder ys"
    and "\<And>k. filter (\<lambda>a. timeOf a = k) ys = filter (\<lambda>a. timeOf a = k) xs"
  shows "Array_sort compareByTime xs = ys"
proof -
  let ?k = "\<lambda>a. numKey (timeOf a)"
  have sx: "set ys = set xs" using assms(2) by (rule mset_eq_setD)
  have ny: "\<forall>y \<in> set ys. timeOf y \<noteq> NaN" using assms(1) sx by simp
  have "sorted_wrt (\<lambda>a b. jle (timeOf a) (timeOf b)) ys"
    using assms(3) by (simp add: inTimeOrder_def)
  then have "sorted_wrt (\<lambda>a b. ?k a \<le> ?k b) ys"
    using ny by (auto intro: sorted_wrt_mono_rel[rotated] simp: numKey_le)
  then have 1: "sorted (map ?k ys)" by (simp add: sorted_map)
  have 2: "filter (\<lambda>x. ?k k = ?k x) ys = filter (\<lambda>x. ?k k = ?k x) xs" if "k \<in> set ys" for k
  proof -
    have kn: "timeOf k \<noteq> NaN" using that ny by simp
    have e: "filter (\<lambda>x. ?k k = ?k x) zs = filter (\<lambda>a. timeOf a = timeOf k) zs"
      if "\<forall>y \<in> set zs. timeOf y \<noteq> NaN" for zs
      using that kn by (intro filter_cong) (auto simp: numKey_inj)
    show ?thesis using e[of ys] e[of xs] ny assms(1) assms(4)[of "timeOf k"] by simp
  qed
  have "sort_key ?k xs = ys" using assms(2) 2 1 by (rule properties_for_sort_key)
  then show ?thesis by (simp add: Array_sort_compareByTime[OF assms(1)])
qed

section \<open>Parsing a clock time\<close>






section \<open>The computed total cost\<close>

lemma foldl_days:
  "foldl (\<lambda>acc d. foldl f acc (activities d)) acc ds = foldl f acc (concat (map activities ds))"
  by (induction ds arbitrary: acc) simp_all

lemma foldl_costStep:
  "foldl costStep (t, c) acts =
     (t + sum_list (map amount (costsOf acts)),
      if costsOf acts = [] then c else currency (last (costsOf acts)))"
proof (induction acts arbitrary: t c)
  case Nil
  then show ?case by (simp add: costsOf_def)
next
  case (Cons a acts)
  show ?case
  proof (cases "cost a")
    case None
    then show ?thesis using Cons[of t c] by (simp add: costsOf_def costStep_def)
  next
    case (Some x)
    have c: "costsOf (a # acts) = x # costsOf acts" using Some by (simp add: costsOf_def)
    have "foldl costStep (t, c) (a # acts) = foldl costStep (t + amount x, currency x) acts"
      using Some by (simp add: costStep_def plus_jsnum_def)
    also have "\<dots> = (t + amount x + sum_list (map amount (costsOf acts)),
        if costsOf acts = [] then currency x else currency (last (costsOf acts)))"
      by (rule Cons)
    finally show ?thesis unfolding c by (simp add: add.assoc)
  qed
qed

lemma calculateTotalCost_eq:
  "calculateTotalCost it =
     \<lparr>amount = Math_round (sum_list (map amount (costsOf (allActivities it)))),
      currency = (if costsOf (allActivities it) = [] then js ''NZD''
                  else currency (last (costsOf (allActivities it))))\<rparr>"
proof -
  have "calculateTotalCost it =
    (let (total, cur) = foldl costStep (Fin 0, js ''NZD'') (allActivities it)
     in \<lparr>amount = Math_round total, currency = cur\<rparr>)"
    unfolding calculateTotalCost_def allActivities_def foldl_days costStep_def ..
  then show ?thesis
    by (simp add: foldl_costStep zero_jsnum_def[symmetric])
qed

lemma mset_costsOf: "mset xs = mset ys \<Longrightarrow> mset (costsOf xs) = mset (costsOf ys)"
proof -
  have "mset (costsOf zs) = (\<Sum>a\<in>#mset zs. mset (case cost a of None \<Rightarrow> [] | Some c \<Rightarrow> [c]))" for zs
    unfolding costsOf_def by (induction zs) simp_all
  then show "mset xs = mset ys \<Longrightarrow> mset (costsOf xs) = mset (costsOf ys)" by simp
qed

lemma mset_allActivities_arranged:
  "mset (concat (map (\<lambda>d. activities (arrange d)) ds)) = mset (concat (map activities ds))"
  by (induction ds) (simp_all add: arrange_def mset_Array_sort)

lemma optimizeItinerary_eq:
  "optimizeItinerary it =
     (let arranged = it\<lparr>days := map arrange (days it)\<rparr>
      in if totalCost it = None then arranged\<lparr>totalCost := Some (calculateTotalCost arranged)\<rparr>
         else arranged)"
  by (simp add: optimizeItinerary_def arrange_def Let_def)

lemma days_optimizeItinerary: "days (optimizeItinerary it) = map arrange (days it)"
  by (simp add: optimizeItinerary_eq Let_def)

lemma mset_allActivities_optimizeItinerary:
  "mset (allActivities (optimizeItinerary it)) = mset (allActivities it)"
  using mset_allActivities_arranged[of "days it"]
  by (simp add: allActivities_def days_optimizeItinerary comp_def)

lemma totalCost_optimizeItinerary:
  assumes "totalCost it = None"
  shows "totalCost (optimizeItinerary it) =
    Some \<lparr>amount = Math_round (sum_list (map amount (costsOf (allActivities it)))),
          currency = (if costsOf (allActivities (optimizeItinerary it)) = [] then js ''NZD''
                      else currency (last (costsOf (allActivities (optimizeItinerary it)))))\<rparr>"
proof -
  let ?arr = "it\<lparr>days := map arrange (days it)\<rparr>"
  let ?opt = "optimizeItinerary it"
  have a: "allActivities ?arr = allActivities ?opt"
    by (simp add: allActivities_def days_optimizeItinerary)
  have "mset (costsOf (allActivities ?opt)) = mset (costsOf (allActivities it))"
    by (rule mset_costsOf) (rule mset_allActivities_optimizeItinerary)
  then have "mset (map amount (costsOf (allActivities ?opt))) = mset (map amount (costsOf (allActivities it)))"
    by simp
  then have s: "sum_list (map amount (costsOf (allActivities ?opt))) = sum_list (map amount (costsOf (allActivities it)))"
    by (metis sum_mset_sum_list)
  have "totalCost ?opt = Some (calculateTotalCost ?arr)"
    using assms by (simp add: optimizeItinerary_eq Let_def)
  then show ?thesis by (simp add: calculateTotalCost_eq a s)
qed



section \<open>Failures of the provider and of the statistics\<close>

text \<open>
  When the reply of the backend is text that \<open>JSON.parse\<close> rejects, the provider's
  \<open>generateJSON\<close> raises, with the parse error's message behind the provider's prefix.
\<close>

lemma AnthropicProvider_generateJSON_malformed:
  assumes "msgs \<noteq> []"
    and "\<And>request. messages_create be request = Inr response"
    and "JSON_parse be (extractContent response) = Inl err"
  shows "fst (AnthropicProvider_generateJSON be msgs opts usage) =
    Inl (Error (js ''anthropic GenerateJSON: '' @ js_error.message err))"
proof -
  obtain l b where "rev msgs = l # b" using assms(1) by (cases "rev msgs") auto
  then show ?thesis using assms(2,3)
    by (simp add: AnthropicProvider_generateJSON_def handleError_def Let_def js_def
        split: prod.splits)
qed

lemma division_by_zero: "\<not> isFinite (Math_round (jdiv x (Fin 0)))"
  by (cases x) (simp_all add: isFinite_def)

lemma getStatistics_no_days:
  assumes "days it = []"
  shows "avgActivitiesPerDay (getStatistics it) = NaN"
    and "\<not> isFinite (avgDailyBudget (getStatistics it))"
proof -
  show "avgActivitiesPerDay (getStatistics it) = NaN"
    using assms by (simp add: getStatistics_def countActivities_def Let_def)
  show "\<not> isFinite (avgDailyBudget (getStatistics it))"
    using assms by (simp add: getStatistics_def Let_def division_by_zero)
qed

section \<open>What \<open>generate\<close> returns\<close>

text \<open>
  With an accepted date range, a reply of the model and a reply that the itinerary schema
  accepts, \<open>generate\<close> returns the validated itinerary after post-processing, and has
  called the model once.
\<close>

lemma generate_success:
  assumes "validateDateRange env (GenerateItineraryDto.startDate dto)
             (GenerateItineraryDto.endDate dto) (GenerateItineraryDto.days dto) = Inr w"
    and "itineraryRequest env dto
           (case GenerateItineraryDto.locale dto of Some l \<Rightarrow> l | None \<Rightarrow> En) = (msgs, opts)"
    and "generateJSON env msgs opts = Inr response"
    and "itinerarySchema (Some response) = Some it"
  shows "generate env dto made = (Inr (optimizeItinerary it), made @ [(msgs, opts)])"
  using assms by (simp add: generate_def validate_def)

section \<open>The calls of the model\<close>

text \<open>
  \<open>extract\<close> calls the model exactly once. \<open>generate\<close> calls it exactly once when the
  date check lets the request through, in particular when a date is not valid.
\<close>

lemma extract_calls_model:
  "snd (extract env dto made) = made @ [intentRequest env dto (resolveLocale dto)]"
  by (simp add: extract_def Let_def split: prod.splits sum.splits ValidationResult.splits)

lemma generate_calls_model:
  assumes "\<not> jge (Date_getTime env (GenerateItineraryDto.startDate dto))
                (Date_getTime env (GenerateItineraryDto.endDate dto))"
  shows "snd (generate env dto made) =
           made @ [itineraryRequest env dto
                     (case GenerateItineraryDto.locale dto of Some l \<Rightarrow> l | None \<Rightarrow> En)]"
  using assms
  by (simp add: generate_def validateDateRange_def Let_def
      split: prod.splits sum.splits ValidationResult.splits)

lemma generate_invalid_date_calls_model:
  assumes "Date_getTime env (GenerateItineraryDto.startDate dto) = NaN
           \<or> Date_getTime env (GenerateItineraryDto.endDate dto) = NaN"
  shows "length (snd (generate env dto made)) = Suc (length made)"
proof -
  have "\<not> jge (Date_getTime env (GenerateItineraryDto.startDate dto))
              (Date_getTime env (GenerateItineraryDto.endDate dto))"
    using assms
    by (cases "Date_getTime env (GenerateItineraryDto.startDate dto)";
        cases "Date_getTime env (GenerateItineraryDto.endDate dto)")
       (auto simp: jge_def jle_def)
  then show ?thesis by (simp add: generate_calls_model)
qed

section \<open>Times that do not parse\<close>

text \<open>
  A day of two or more activities, one of which has a time that does not parse, is in
  time order in no arrangement: \<open>NaN\<close> is neither below nor above any number.
\<close>

lemma not_inTimeOrder_NaN:
  assumes "a \<in> set acts" and "timeOf a = NaN" and "2 \<le> length acts"
  shows "\<not> inTimeOrder acts"
proof
  assume "inTimeOrder acts"
  then have "sorted_wrt (\<lambda>x y. jle (timeOf x) (timeOf y)) acts" by (simp add: inTimeOrder_def)
  then have "length acts \<le> 1" using assms(1)
  proof (induction acts)
    case Nil
    then show ?case by simp
  next
    case (Cons x xs)
    show ?case
    proof (cases "x = a")
      case True
      have "\<forall>y \<in> set xs. jle (timeOf a) (timeOf y)" using Cons.prems(1) True by simp
      then have "xs = []" using assms(2) by (cases xs) (auto simp: jle_def)
      then show ?thesis by simp
    next
      case False
      then have "a \<in> set xs" using Cons.prems(2) by simp
      then have "jle (timeOf x) (timeOf a)" using Cons.prems(1) by simp
      then show ?thesis using assms(2) by (cases "timeOf x") (simp_all add: jle_def)
    qed
  qed
  then show False using assms(3) by simp
qed

section \<open>The claims\<close>

text \<open>
  C1. A request whose start date is not strictly before its end date makes \<open>generate\<close>
  raise the error \<open>End date must be after start date\<close> before any call of the model.
  As stated this fails: the check is \<open>start >= end\<close> on the time values of the two
  dates, and a string that is not a date has the time value \<open>NaN\<close>, for which the
  comparison is false. What holds: when both strings are dates and the end is not
  after the start, \<open>generate\<close> raises that error and the calls made are unchanged.
\<close>

theorem generate_rejects_date_range:
  assumes "Date_getTime env (GenerateItineraryDto.startDate dto) = Fin s"
    and "Date_getTime env (GenerateItineraryDto.endDate dto) = Fin e"
    and "e \<le> s"
  shows "generate env dto made = (Inl (Error (js ''End date must be after start date'')), made)"
  using assms by (auto simp: generate_def validateDateRange_def jge_def jle_def Let_def)

theorem generate_rejects_date_range_witness:
  "Date_getTime (exampleDeps (Inr JNull))
     (GenerateItineraryDto.startDate (exampleItineraryDto ''2025-12-10'' ''2025-12-05''))
     = Fin 1765324800000
   \<and> Date_getTime (exampleDeps (Inr JNull))
     (GenerateItineraryDto.endDate (exampleItineraryDto ''2025-12-10'' ''2025-12-05''))
     = Fin 1764892800000
   \<and> (1764892800000 :: real) \<le> 1765324800000
   \<and> generate (exampleDeps (Inr JNull)) (exampleItineraryDto ''2025-12-10'' ''2025-12-05'') []
     = (Inl (Error (js ''End date must be after start date'')), [])"
proof -
  let ?env = "exampleDeps (Inr JNull)"
  let ?dto = "exampleItineraryDto ''2025-12-10'' ''2025-12-05''"
  have s: "Date_getTime ?env (GenerateItineraryDto.startDate ?dto) = Fin 1765324800000"
    by code_simp
  have e: "Date_getTime ?env (GenerateItineraryDto.endDate ?dto) = Fin 1764892800000"
    by code_simp
  have le: "(1764892800000 :: real) \<le> 1765324800000" by simp
  show ?thesis using s e le generate_rejects_date_range[OF s e le, of "[]"] by simp
qed

text \<open>
  The counterexample to C1: the start date \<open>soon\<close> is not strictly before the end date
  \<open>2025-12-05\<close>, yet \<open>generate\<close> calls the model once and returns the itinerary.
\<close>

theorem generate_invalid_date_counterexample:
  "\<not> jlt (Date_getTime (exampleDeps (Inr twoCurrenciesJSON))
            (GenerateItineraryDto.startDate (exampleItineraryDto ''soon'' ''2025-12-05'')))
          (Date_getTime (exampleDeps (Inr twoCurrenciesJSON))
            (GenerateItineraryDto.endDate (exampleItineraryDto ''soon'' ''2025-12-05'')))
   \<and> fst (generate (exampleDeps (Inr twoCurrenciesJSON))
            (exampleItineraryDto ''soon'' ''2025-12-05'') [])
     = Inr (optimizeItinerary twoCurrencies)
   \<and> length (snd (generate (exampleDeps (Inr twoCurrenciesJSON))
                    (exampleItineraryDto ''soon'' ''2025-12-05'') [])) = 1"
  by code_simp











text \<open>
  C6. With no explicit locale, a query that contains a CJK ideograph resolves to \<open>zh\<close>
  and an all-ASCII query to \<open>en\<close>. As stated this fails: the test is the character
  class from U+4E00 to U+9FFF, and there are ideographs outside it. What holds: the
  locale is \<open>zh\<close> exactly when the query has a code unit from U+4E00 to U+9FFF, and an
  all-ASCII query resolves to \<open>en\<close>.
\<close>

theorem resolveLocale_detection:
  assumes "ExtractIntentDto.locale dto = None"
  shows "resolveLocale dto =
           (if \<exists>c \<in> set (query dto). 0x4E00 \<le> c \<and> c \<le> 0x9FFF then Zh else En)
         \<and> (isASCII (query dto) \<longrightarrow> resolveLocale dto = En)"
proof -
  have 1: "resolveLocale dto =
           (if \<exists>c \<in> set (query dto). 0x4E00 \<le> c \<and> c \<le> 0x9FFF then Zh else En)"
    using assms by (simp add: resolveLocale_def detectLanguage_def chineseRegex_test_def list_ex_iff)
  have "\<not> 0x4E00 \<le> c" if "c < 0x80" for c :: "16 word"
  proof -
    have "(0x80 :: 16 word) \<le> 0x4E00" by simp
    then have "c < 0x4E00" using that by (rule order.strict_trans2[rotated])
    then show ?thesis by simp
  qed
  then have "isASCII (query dto) \<longrightarrow> resolveLocale dto = En"
    unfolding 1 by (auto simp: isASCII_def list_all_iff)
  then show ?thesis using 1 by simp
qed

theorem resolveLocale_detection_witness:
  "ExtractIntentDto.locale (exampleIntentDto [0x63A8, 0x8350, 0x9910, 0x5385]) = None
   \<and> resolveLocale (exampleIntentDto [0x63A8, 0x8350, 0x9910, 0x5385]) = Zh
   \<and> ExtractIntentDto.locale (exampleIntentDto (js ''I want to visit Auckland for 3 days'')) = None
   \<and> isASCII (query (exampleIntentDto (js ''I want to visit Auckland for 3 days'')))
   \<and> resolveLocale (exampleIntentDto (js ''I want to visit Auckland for 3 days'')) = En"
proof -
  let ?zh = "exampleIntentDto [0x63A8, 0x8350, 0x9910, 0x5385]"
  let ?en = "exampleIntentDto (js ''I want to visit Auckland for 3 days'')"
  have z: "ExtractIntentDto.locale ?zh = None" by (simp add: exampleIntentDto_def)
  have e: "ExtractIntentDto.locale ?en = None" by (simp add: exampleIntentDto_def)
  have a: "isASCII (query ?en)" by code_simp
  have q: "query ?zh = [0x63A8, 0x8350, 0x9910, 0x5385]" by (simp add: exampleIntentDto_def)
  have 1: "resolveLocale ?zh = Zh" using resolveLocale_detection[OF z] by (simp add: q)
  have 2: "resolveLocale ?en = En" using resolveLocale_detection[OF e] a by blast
  show ?thesis using z e a 1 2 by blast
qed

text \<open>
  The counterexample to C6: the one-character query U+3400, an ideograph of Extension A,
  has no explicit locale and resolves to \<open>en\<close>.
\<close>

theorem resolveLocale_extension_counterexample:
  "cjkIdeograph 0x3400
   \<and> query (exampleIntentDto [0x3400]) = [0x3400]
   \<and> ExtractIntentDto.locale (exampleIntentDto [0x3400]) = None
   \<and> resolveLocale (exampleIntentDto [0x3400]) = En"
  by code_simp

text \<open>
  C7. An intent with confidence below \<open>0.7\<close> is not actionable, whatever its type and
  its parameters.
\<close>

theorem isActionable_low_confidence:
  "jlt (confidence intent) (Fin 0.7) \<Longrightarrow> \<not> isActionable intent"
  by (simp add: isActionable_def)

theorem isActionable_low_confidence_witness:
  "jlt (confidence lowConfidenceIntent) (Fin 0.7) \<and> \<not> isActionable lowConfidenceIntent"
proof -
  have h: "jlt (confidence lowConfidenceIntent) (Fin 0.7)"
    by (simp add: lowConfidenceIntent_def)
  show ?thesis using h isActionable_low_confidence[OF h] by simp
qed

text \<open>
  C8. On an itinerary with no days \<open>getStatistics\<close> should return zeroed averages. The
  code divides by the number of days without a guard: with no days and no total cost
  both averages are \<open>NaN\<close>.
\<close>

theorem getStatistics_no_days_example:
  "getStatistics noDaysItinerary =
     \<lparr>totalDays = Fin 0, totalActivities = Fin 0, totalCost = Fin 0,
      avgActivitiesPerDay = NaN, avgDailyBudget = NaN\<rparr>"
  by code_simp

text \<open>
  C9. When the validated itinerary has no \<open>totalCost\<close>, the computed currency is the
  first non-empty currency among the activities' costs, and \<open>NZD\<close> when no activity
  carries a cost. As stated this fails: every activity with a cost overwrites the
  currency. What holds: the computed currency is that of the last activity with a
  cost, in the order of the days and of the sorted activities, and \<open>NZD\<close> when no
  activity carries a cost.
\<close>

theorem computed_total_currency:
  assumes "totalCost it = None"
  shows "\<exists>c. totalCost (optimizeItinerary it) = Some c
           \<and> currency c =
               (let cs = costsOf (allActivities (optimizeItinerary it))
                in if cs = [] then js ''NZD'' else currency (last cs))
           \<and> (costsOf (allActivities it) = [] \<longrightarrow> currency c = js ''NZD'')"
proof -
  have "mset (costsOf (allActivities (optimizeItinerary it))) = mset (costsOf (allActivities it))"
    by (rule mset_costsOf) (rule mset_allActivities_optimizeItinerary)
  then have "costsOf (allActivities it) = [] \<Longrightarrow> costsOf (allActivities (optimizeItinerary it)) = []"
    by (metis mset_zero_iff)
  then show ?thesis
    unfolding totalCost_optimizeItinerary[OF assms] by (auto simp: Let_def)
qed

theorem computed_total_currency_witness:
  "totalCost threeActivities = None
   \<and> map currency (costsOf (allActivities threeActivities)) = [js ''EUR'', js ''USD'']
   \<and> map currency (costsOf (allActivities (optimizeItinerary threeActivities)))
     = [js ''USD'', js ''EUR'']
   \<and> map_option currency (totalCost (optimizeItinerary threeActivities)) = Some (js ''EUR'')"
proof -
  have h: "totalCost threeActivities = None"
    by (simp add: threeActivities_def exampleItinerary_def)
  have b: "map currency (costsOf (allActivities threeActivities)) = [js ''EUR'', js ''USD'']"
    by code_simp
  have a: "map currency (costsOf (allActivities (optimizeItinerary threeActivities)))
     = [js ''USD'', js ''EUR'']"
    by code_simp
  have n: "costsOf (allActivities (optimizeItinerary threeActivities)) \<noteq> []"
    using a by auto
  have "currency (last (costsOf (allActivities (optimizeItinerary threeActivities)))) = js ''EUR''"
    using a n by (metis last_map last.simps list.distinct(1))
  then show ?thesis using h b a n computed_total_currency[OF h] by (auto simp: Let_def)
qed

text \<open>
  The counterexample to C9: two activities in time order, the first priced in \<open>USD\<close>, the
  second in \<open>EUR\<close>. The first non-empty currency is \<open>USD\<close>; the computed one is \<open>EUR\<close>.
\<close>

theorem computed_total_currency_counterexample:
  "itinerarySchema (Some twoCurrenciesJSON) = Some twoCurrencies
   \<and> totalCost twoCurrencies = None
   \<and> firstNonEmptyCurrency (costsOf (allActivities twoCurrencies)) = js ''USD''
   \<and> map_option currency (totalCost (optimizeItinerary twoCurrencies)) = Some (js ''EUR'')"
  by code_simp

text \<open>
  C10. Post-processing changes at most the order of the activities within each day and
  the \<open>totalCost\<close> when it was absent. The result is the itinerary with new \<open>days\<close> and a
  new \<open>totalCost\<close>, so every other field is the same; the days correspond one to one in
  the same order, each new day is the old one with its activities rearranged, the
  activities of a day are the same multiset of unchanged values, and a \<open>totalCost\<close> that
  was present is kept.
\<close>

theorem optimizeItinerary_frame:
  "\<exists>ds tc. optimizeItinerary it = it\<lparr>days := ds, totalCost := tc\<rparr>
     \<and> list_all2 (\<lambda>d d'. \<exists>acts. d' = d\<lparr>activities := acts\<rparr> \<and> mset acts = mset (activities d))
          (days it) ds
     \<and> (totalCost it \<noteq> None \<longrightarrow> tc = totalCost it)"
proof -
  let ?ds = "map arrange (days it)"
  let ?tc = "totalCost (optimizeItinerary it)"
  have 1: "optimizeItinerary it = it\<lparr>days := ?ds, totalCost := ?tc\<rparr>"
    by (cases it) (simp add: optimizeItinerary_eq Let_def)
  have 2: "list_all2 (\<lambda>d d'. \<exists>acts. d' = d\<lparr>activities := acts\<rparr> \<and> mset acts = mset (activities d))
          (days it) ?ds"
    by (auto simp: list_all2_map2 arrange_def mset_Array_sort intro!: list.rel_refl)
  have 3: "totalCost it \<noteq> None \<longrightarrow> ?tc = totalCost it"
    by (simp add: optimizeItinerary_eq Let_def)
  show ?thesis using 1 2 3 by blast
qed

theorem optimizeItinerary_frame_witness:
  "totalCost pricedItinerary \<noteq> None
   \<and> totalCost (optimizeItinerary pricedItinerary) = totalCost pricedItinerary
   \<and> title (optimizeItinerary pricedItinerary) = title pricedItinerary
   \<and> recommendations (optimizeItinerary pricedItinerary) = recommendations pricedItinerary
   \<and> length (days (optimizeItinerary pricedItinerary)) = length (days pricedItinerary)"
proof -
  have h: "totalCost pricedItinerary \<noteq> None"
    by (simp add: pricedItinerary_def exampleItinerary_def)
  obtain ds tc where e: "optimizeItinerary pricedItinerary = pricedItinerary\<lparr>days := ds, totalCost := tc\<rparr>"
    and l: "list_all2 (\<lambda>d d'. \<exists>acts. d' = d\<lparr>activities := acts\<rparr> \<and> mset acts = mset (activities d))
          (days pricedItinerary) ds"
    and t: "totalCost pricedItinerary \<noteq> None \<longrightarrow> tc = totalCost pricedItinerary"
    using optimizeItinerary_frame[of pricedItinerary] by blast
  have "length ds = length (days pricedItinerary)" using l by (simp add: list_all2_lengthD)
  then show ?thesis using h t by (simp add: e)
qed

end
